theory Spec2Isabelle
  imports Complex_Main "HOL-Library.Sublist" "HOL-Library.AList"
begin

section \<open>One turn of the chat action: \<^verbatim>\<open>packages/mastrogpt/chat/chat.py\<close>\<close>

text \<open>
  The action \<^verbatim>\<open>chat(args)\<close> receives a dictionary of JSON values, normalises the
  conversation state, and then either answers with a usage banner, runs a model command
  (\<^verbatim>\<open>@\<close>, \<^verbatim>\<open>@name\<close>), or posts the conversation to the completion
  provider and relays the streamed answer to a side-channel socket.

  The embedding is shallow. Python values are a datatype of JSON values, a dictionary is
  an association list read with \<^const>\<open>map_of\<close>, every \<^verbatim>\<open>raise\<close> is the
  \<open>Inl\<close> branch of a sum, and the effects on the outside world (socket and HTTP calls)
  are a list of events returned next to the result. What the outside world answers (whether
  the socket connects, whether a write succeeds, what the provider sends back) and the
  library functions whose exact text plays no role (\<^verbatim>\<open>json.loads\<close>, \<^verbatim>\<open>repr\<close>,
  the message of an exception) are fields of an environment record, so every theorem holds
  for all of their behaviours.

  The source fixes \<^verbatim>\<open>STREAM_ENABLED = True\<close>; the model is the program under that
  setting: each \<^verbatim>\<open>if STREAM_ENABLED\<close> takes its first branch, and the blocking
  request of lines 221--231 is not part of it.
\<close>

subsection \<open>Values, exceptions, events\<close>

text \<open>
  A string is a list of characters, one \<^typ>\<open>char\<close> for each code point; the model
  covers the code points below 256. Numbers are integers or rationals (a JSON number with
  a fraction or an exponent).
\<close>

datatype json =
    JNull
  | JBool bool
  | JInt int
  | JFloat rat
  | JStr string
  | JArr "json list"
  | JObj "(string \<times> json) list"

type_synonym dict = "(string \<times> json) list"

text \<open>
  The exceptions the code can meet. \<open>OSError\<close> is what the socket raises (and stands
  for any failure inside \<^verbatim>\<open>_send\<close>); \<open>RequestException\<close> is the family
  \<^verbatim>\<open>requests.exceptions.RequestException\<close>, the only one the first handler of
  \<^verbatim>\<open>chat\<close> catches.
\<close>

datatype exn =
    TypeError
  | AttributeError
  | KeyError
  | IndexError
  | ValueError
  | OSError
  | RequestException

datatype socket = Socket string int

datatype payload =
    PState json
  | POutput string

datatype event =
    Connected string int
  | ConnectFailed string int
  | Sent payload
  | SendFailed payload
  | Closed
  | Posted json

text \<open>
  The provider's answer to the one request of a turn: \<^verbatim>\<open>requests.post\<close> raises,
  or there is a response with a status code and a body read line by line; the flag says
  that the connection breaks (a \<open>RequestException\<close> out of \<^verbatim>\<open>iter_lines\<close>)
  once the listed lines have been read.
\<close>

datatype upstream_reply =
    PostFails
  | Response nat "string list" bool

record env =
  json_loads :: "string \<Rightarrow> json option"
  py_repr :: "json \<Rightarrow> string"
  exn_str :: "exn \<Rightarrow> string"
  connect_ok :: "string \<Rightarrow> int \<Rightarrow> bool"
  send_ok :: "nat \<Rightarrow> bool"
  upstream :: upstream_reply

text \<open>The dictionary \<^verbatim>\<open>{"output": ..., "streaming": ..., "state": ...}\<close> that a turn returns.\<close>

record result =
  res_output :: string
  res_streaming :: bool
  res_state :: json

subsection \<open>Configuration (lines 10--23)\<close>

definition DEFAULT_MODEL :: string where
  "DEFAULT_MODEL = ''openai/gpt-oss-120b:free''"

definition STATIC_MODELS :: "string list" where
  "STATIC_MODELS =
    [''moonshotai/kimi-k2'',
     ''deepseek/deepseek-chat-v3.1'',
     ''qwen/qwen3-coder'',
     ''openai/gpt-oss-120b'',
     ''openai/gpt-oss-20b'',
     ''openchat/openchat-7b'',
     ''openai/gpt-5'',
     ''mistralai/mistral-7b-instruct'',
     ''deepseek/deepseek-chat-v3.1:free'',
     ''openai/gpt-oss-120b:free'']"

definition STREAM_ENABLED :: bool where
  "STREAM_ENABLED = True"

subsection \<open>The Python operations the code uses\<close>

text \<open>\<^verbatim>\<open>d.get(k, default)\<close> on the argument dictionary.\<close>

definition dict_get :: "dict \<Rightarrow> string \<Rightarrow> json \<Rightarrow> json" where
  "dict_get d k dflt = (case map_of d k of None \<Rightarrow> dflt | Some v \<Rightarrow> v)"

text \<open>\<^verbatim>\<open>str(v)\<close>: a string is itself, any other value is printed by \<^verbatim>\<open>repr\<close>.\<close>

definition py_str :: "env \<Rightarrow> json \<Rightarrow> string" where
  "py_str E v = (case v of JStr s \<Rightarrow> s | _ \<Rightarrow> py_repr E v)"

text \<open>
  \<^verbatim>\<open>str.isspace\<close> on one character: tab to carriage return, the four separators
  0x1C--0x1F, space, NEL and the no-break space.
\<close>

definition is_space :: "char \<Rightarrow> bool" where
  "is_space c =
    (let n = (of_char c :: nat)
     in (9 \<le> n \<and> n \<le> 13) \<or> (28 \<le> n \<and> n \<le> 32) \<or> n = 133 \<or> n = 160)"

definition strip :: "string \<Rightarrow> string" where
  "strip s = rev (dropWhile is_space (rev (dropWhile is_space s)))"

text \<open>\<^verbatim>\<open>str.lower\<close>: the letters A--Z and the capital letters of Latin-1.\<close>

definition lower_char :: "char \<Rightarrow> char" where
  "lower_char c =
    (let n = (of_char c :: nat)
     in if (65 \<le> n \<and> n \<le> 90) \<or> (192 \<le> n \<and> n \<le> 222 \<and> n \<noteq> 215)
        then char_of (n + 32) else c)"

definition lower :: "string \<Rightarrow> string" where
  "lower s = map lower_char s"

definition startswith :: "string \<Rightarrow> string \<Rightarrow> bool" where
  "startswith s p = prefix p s"

text \<open>\<^verbatim>\<open>sep.join(xs)\<close>.\<close>

fun join :: "string \<Rightarrow> string list \<Rightarrow> string" where
  "join sep [] = []"
| "join sep [x] = x"
| "join sep (x # y # ys) = x @ sep @ join sep (y # ys)"

text \<open>
  \<^verbatim>\<open>int(v)\<close>. A string is stripped, may carry one sign, and is a run of decimal
  digits in which single underscores may separate digits; anything else is a
  \<open>ValueError\<close>. A number is truncated towards zero; a boolean is 0 or 1; the other
  values are a \<open>TypeError\<close>.
\<close>

definition is_digit :: "char \<Rightarrow> bool" where
  "is_digit c = (let n = (of_char c :: nat) in 48 \<le> n \<and> n \<le> 57)"

fun parse_digits :: "string \<Rightarrow> nat \<Rightarrow> bool \<Rightarrow> nat option" where
  "parse_digits [] acc after_digit = (if after_digit then Some acc else None)"
| "parse_digits (c # cs) acc after_digit =
    (if is_digit c then parse_digits cs (10 * acc + (of_char c - 48)) True
     else if c = CHR ''_'' \<and> after_digit then parse_digits cs acc False
     else None)"

definition parse_int :: "string \<Rightarrow> int option" where
  "parse_int s =
    (case strip s of
       [] \<Rightarrow> None
     | c # cs \<Rightarrow>
         if c = CHR ''-'' then map_option (\<lambda>n. - int n) (parse_digits cs 0 False)
         else if c = CHR ''+'' then map_option int (parse_digits cs 0 False)
         else map_option int (parse_digits (c # cs) 0 False))"

definition py_int :: "json \<Rightarrow> exn + int" where
  "py_int v =
    (case v of
       JInt n \<Rightarrow> Inr n
     | JBool b \<Rightarrow> Inr (if b then 1 else 0)
     | JFloat q \<Rightarrow> Inr (if 0 \<le> q then \<lfloor>q\<rfloor> else \<lceil>q\<rceil>)
     | JStr s \<Rightarrow> (case parse_int s of None \<Rightarrow> Inl ValueError | Some n \<Rightarrow> Inr n)
     | _ \<Rightarrow> Inl TypeError)"

text \<open>
  \<^verbatim>\<open>k in v\<close> for a string \<open>k\<close>: a key test on a dictionary, a membership test on
  a list, a substring test on a string, and a \<open>TypeError\<close> on anything else.
\<close>

definition py_contains :: "string \<Rightarrow> json \<Rightarrow> exn + bool" where
  "py_contains k v =
    (case v of
       JObj d \<Rightarrow> Inr (map_of d k \<noteq> None)
     | JArr xs \<Rightarrow> Inr (JStr k \<in> set xs)
     | JStr s \<Rightarrow> Inr (sublist k s)
     | _ \<Rightarrow> Inl TypeError)"

text \<open>\<^verbatim>\<open>v[k]\<close> and \<^verbatim>\<open>v[k] = x\<close> for a string \<open>k\<close>: only a dictionary accepts a string index.\<close>

definition py_getitem :: "json \<Rightarrow> string \<Rightarrow> exn + json" where
  "py_getitem v k =
    (case v of
       JObj d \<Rightarrow> (case map_of d k of None \<Rightarrow> Inl KeyError | Some x \<Rightarrow> Inr x)
     | _ \<Rightarrow> Inl TypeError)"

definition py_setitem :: "json \<Rightarrow> string \<Rightarrow> json \<Rightarrow> exn + json" where
  "py_setitem v k x =
    (case v of
       JObj d \<Rightarrow> Inr (JObj (AList.update k x d))
     | _ \<Rightarrow> Inl TypeError)"

text \<open>\<^verbatim>\<open>len(v)\<close>, \<^verbatim>\<open>v[0]\<close>, \<^verbatim>\<open>v.get(k, default)\<close>, \<^verbatim>\<open>v.copy()\<close> and \<^verbatim>\<open>v.append(x)\<close>.\<close>

definition py_len :: "json \<Rightarrow> exn + nat" where
  "py_len v =
    (case v of
       JObj d \<Rightarrow> Inr (length (remdups (map fst d)))
     | JArr xs \<Rightarrow> Inr (length xs)
     | JStr s \<Rightarrow> Inr (length s)
     | _ \<Rightarrow> Inl TypeError)"

definition py_index0 :: "json \<Rightarrow> exn + json" where
  "py_index0 v =
    (case v of
       JArr xs \<Rightarrow> (case xs of [] \<Rightarrow> Inl IndexError | x # _ \<Rightarrow> Inr x)
     | JStr s \<Rightarrow> (case s of [] \<Rightarrow> Inl IndexError | c # _ \<Rightarrow> Inr (JStr [c]))
     | JObj d \<Rightarrow> Inl KeyError
     | _ \<Rightarrow> Inl TypeError)"

definition py_get :: "json \<Rightarrow> string \<Rightarrow> json \<Rightarrow> exn + json" where
  "py_get v k dflt =
    (case v of
       JObj d \<Rightarrow> Inr (dict_get d k dflt)
     | _ \<Rightarrow> Inl AttributeError)"

definition py_copy :: "json \<Rightarrow> exn + json" where
  "py_copy v =
    (case v of
       JArr xs \<Rightarrow> Inr (JArr xs)
     | JObj d \<Rightarrow> Inr (JObj d)
     | _ \<Rightarrow> Inl AttributeError)"

definition py_append :: "json \<Rightarrow> json \<Rightarrow> exn + json" where
  "py_append v x =
    (case v of
       JArr xs \<Rightarrow> Inr (JArr (xs @ [x]))
     | _ \<Rightarrow> Inl AttributeError)"

subsection \<open>Socket helpers (lines 46--81)\<close>

text \<open>
  Every helper that touches the socket takes the events so far and returns them extended.
  \<^verbatim>\<open>_open_socket\<close> has no handler: a host that is not a string, a port that
  \<^verbatim>\<open>int\<close> rejects and a refused connection all leave it as exceptions.
\<close>

definition open_socket :: "env \<Rightarrow> dict \<Rightarrow> (exn + socket option) \<times> event list" where
  "open_socket E args =
    (case dict_get args ''STREAM_HOST'' (JStr []) of
       JStr h \<Rightarrow>
         (let host = strip h in
          case py_int (dict_get args ''STREAM_PORT'' (JStr ''0'')) of
            Inl e \<Rightarrow> (Inl e, [])
          | Inr port \<Rightarrow>
              if host = [] \<or> port = 0 then (Inr None, [])
              else if connect_ok E host port
                then (Inr (Some (Socket host port)), [Connected host port])
                else (Inl OSError, [ConnectFailed host port]))
     | _ \<Rightarrow> (Inl AttributeError, []))"

text \<open>
  \<^verbatim>\<open>_close_socket\<close> swallows whatever \<^verbatim>\<open>sock.close()\<close> raises, also the
  \<open>AttributeError\<close> of \<^verbatim>\<open>None.close()\<close>: it never fails, and on \<open>None\<close>
  nothing happens.
\<close>

definition close_socket :: "socket option \<Rightarrow> event list \<Rightarrow> event list" where
  "close_socket sock w = (case sock of None \<Rightarrow> w | Some s \<Rightarrow> w @ [Closed])"

text \<open>
  \<^verbatim>\<open>_send\<close>: nothing on \<open>None\<close>; otherwise one \<^verbatim>\<open>sendall\<close>, whose outcome the
  environment decides by the number of writes attempted before it.
\<close>

definition is_write :: "event \<Rightarrow> bool" where
  "is_write ev = (case ev of Sent p \<Rightarrow> True | SendFailed p \<Rightarrow> True | _ \<Rightarrow> False)"

definition send :: "env \<Rightarrow> socket option \<Rightarrow> payload \<Rightarrow> event list \<Rightarrow> (exn + unit) \<times> event list" where
  "send E sock p w =
    (case sock of
       None \<Rightarrow> (Inr (), w)
     | Some s \<Rightarrow>
         if send_ok E (length (filter is_write w)) then (Inr (), w @ [Sent p])
         else (Inl OSError, w @ [SendFailed p]))"

text \<open>
  \<^verbatim>\<open>_stream_text\<close>: the slices \<^verbatim>\<open>text[i:i+10]\<close> for \<open>i\<close> in
  \<^verbatim>\<open>range(0, len(text), 10)\<close>, sent one after the other; the first failing write ends
  the loop with its exception.
\<close>

definition chunks :: "nat \<Rightarrow> string \<Rightarrow> string list" where
  "chunks chunk_size text =
    map (\<lambda>k. take chunk_size (drop (k * chunk_size) text))
      [0 ..< (length text + chunk_size - 1) div chunk_size]"

fun send_each :: "env \<Rightarrow> socket option \<Rightarrow> string list \<Rightarrow> event list \<Rightarrow> (exn + unit) \<times> event list" where
  "send_each E sock [] w = (Inr (), w)"
| "send_each E sock (c # cs) w =
    (case send E sock (POutput c) w of
       (Inl e, w') \<Rightarrow> (Inl e, w')
     | (Inr u, w') \<Rightarrow> send_each E sock cs w')"

definition stream_text :: "env \<Rightarrow> socket option \<Rightarrow> string \<Rightarrow> event list \<Rightarrow> (exn + unit) \<times> event list" where
  "stream_text E sock text w =
    (case sock of
       None \<Rightarrow> (Inr (), w)
     | Some s \<Rightarrow> send_each E sock (chunks 10 text) w)"

subsection \<open>The state of the conversation (lines 89--104)\<close>

text \<open>
  A string is decoded, and a string that does not decode gives the empty dictionary; a
  dictionary is copied; any other value gives the empty dictionary. Whatever
  \<^verbatim>\<open>json.loads\<close> returned is kept as it is, dictionary or not.
\<close>

definition decode_state :: "env \<Rightarrow> dict \<Rightarrow> json" where
  "decode_state E args =
    (case dict_get args ''state'' (JObj []) of
       JStr s \<Rightarrow> (case json_loads E s of None \<Rightarrow> JObj [] | Some v \<Rightarrow> v)
     | JObj d \<Rightarrow> JObj d
     | _ \<Rightarrow> JObj [])"

text \<open>\<^verbatim>\<open>if k not in state_payload: state_payload[k] = v\<close>.\<close>

definition ensure_field :: "json \<Rightarrow> string \<Rightarrow> json \<Rightarrow> exn + json" where
  "ensure_field state_payload k v =
    (case py_contains k state_payload of
       Inl e \<Rightarrow> Inl e
     | Inr present \<Rightarrow> if present then Inr state_payload else py_setitem state_payload k v)"

definition init_state :: "env \<Rightarrow> dict \<Rightarrow> exn + json" where
  "init_state E args =
    (case ensure_field (decode_state E args) ''model'' (JStr DEFAULT_MODEL) of
       Inl e \<Rightarrow> Inl e
     | Inr state_payload \<Rightarrow> ensure_field state_payload ''history'' (JArr []))"

text \<open>\<^verbatim>\<open>user_inp = str(args.get("input", "")).strip()\<close>.\<close>

definition user_input :: "env \<Rightarrow> dict \<Rightarrow> string" where
  "user_input E args = strip (py_str E (dict_get args ''input'' (JStr [])))"

definition usage :: string where
  "usage =
    ''Welcome to the assistant.\<newline>'' @
    ''Type @ to list curated models.\<newline>'' @
    ''Type @<prefix> to select one (default: '' @ DEFAULT_MODEL @ '').\<newline>''"

subsection \<open>Model commands (lines 117--166)\<close>

text \<open>
  Each of the four branches of the command path ends with the same block: push the state
  and the text to the side channel, close it, and return. No handler surrounds it, so a
  failing write leaves \<^verbatim>\<open>chat\<close> as an exception, before the call that closes the
  socket.
\<close>

definition push_and_return ::
    "env \<Rightarrow> socket option \<Rightarrow> json \<Rightarrow> string \<Rightarrow> event list \<Rightarrow> (exn + result) \<times> event list" where
  "push_and_return E sock state_payload out w =
    (case send E sock (PState state_payload) w of
       (Inl e, w1) \<Rightarrow> (Inl e, w1)
     | (Inr u, w1) \<Rightarrow>
         (case stream_text E sock out w1 of
            (Inl e, w2) \<Rightarrow> (Inl e, w2)
          | (Inr u', w2) \<Rightarrow>
              (Inr \<lparr>res_output = out, res_streaming = STREAM_ENABLED, res_state = state_payload\<rparr>,
               close_socket sock w2)))"

definition command_turn :: "env \<Rightarrow> dict \<Rightarrow> json \<Rightarrow> string \<Rightarrow> (exn + result) \<times> event list" where
  "command_turn E args state_payload user_inp =
    (case open_socket E args of
       (Inl e, w) \<Rightarrow> (Inl e, w)
     | (Inr sock, w) \<Rightarrow>
         if user_inp = ''@'' then
           (case py_getitem state_payload ''model'' of
              Inl e \<Rightarrow> (Inl e, w)
            | Inr model \<Rightarrow>
                push_and_return E sock state_payload
                  (''Available models:\<newline>'' @ join ''\<newline>'' STATIC_MODELS @
                   ''\<newline>\<newline>Current model: '' @ py_str E model) w)
         else
           (let prefix = lower (drop 1 user_inp);
                matched_models = filter (\<lambda>model. lower model = prefix) STATIC_MODELS
            in case matched_models of
                 [] \<Rightarrow>
                   (case py_getitem state_payload ''model'' of
                      Inl e \<Rightarrow> (Inl e, w)
                    | Inr model \<Rightarrow>
                        push_and_return E sock state_payload
                          (''No model found with prefix '' @ [CHR 0x27] @ prefix @ [CHR 0x27] @
                           ''. Current model remains: '' @ py_str E model) w)
               | first # others \<Rightarrow>
                   if length matched_models > 1 then
                     push_and_return E sock state_payload
                       (''Multiple models match prefix '' @ [CHR 0x27] @ prefix @ [CHR 0x27] @
                        '':\<newline>'' @ join ''\<newline>'' matched_models) w
                   else
                     (case py_setitem state_payload ''model'' (JStr first) of
                        Inl e \<Rightarrow> (Inl e, w)
                      | Inr state_payload' \<Rightarrow>
                          push_and_return E sock state_payload'
                            (''Model updated to: '' @ first) w)))"

subsection \<open>The stream of the provider (lines 197--215)\<close>

text \<open>
  Lines 207--210: the content of the first choice's delta, if the decoded object has one.
  Every step is the Python operation on whatever value the provider sent, so an object of
  an unexpected shape raises here.
\<close>

definition extract_content :: "json \<Rightarrow> exn + json option" where
  "extract_content data_obj =
    (case py_contains ''choices'' data_obj of
       Inl e \<Rightarrow> Inl e
     | Inr has_choices \<Rightarrow>
         if \<not> has_choices then Inr None
         else
           (case py_getitem data_obj ''choices'' of
              Inl e \<Rightarrow> Inl e
            | Inr choices \<Rightarrow>
                (case py_len choices of
                   Inl e \<Rightarrow> Inl e
                 | Inr n \<Rightarrow>
                     if \<not> n > 0 then Inr None
                     else
                       (case py_index0 choices of
                          Inl e \<Rightarrow> Inl e
                        | Inr choice \<Rightarrow>
                            (case py_get choice ''delta'' (JObj []) of
                               Inl e \<Rightarrow> Inl e
                             | Inr delta \<Rightarrow>
                                 (case py_contains ''content'' delta of
                                    Inl e \<Rightarrow> Inl e
                                  | Inr has_content \<Rightarrow>
                                      if \<not> has_content then Inr None
                                      else
                                        (case py_getitem delta ''content'' of
                                           Inl e \<Rightarrow> Inl e
                                         | Inr content \<Rightarrow> Inr (Some content))))))))"

text \<open>
  What one line of the body means to the loop: nothing (an empty line, a line without the
  marker, a payload that \<^verbatim>\<open>json.loads\<close> rejects, an object without content), the
  end of the stream, a piece of text, or an exception. \<^verbatim>\<open>full_text += content\<close> needs a
  string, so a content of another type is a \<open>TypeError\<close>.
\<close>

datatype frame =
    Ignored
  | Done
  | Delta string
  | Raises exn

definition decode_line :: "env \<Rightarrow> string \<Rightarrow> frame" where
  "decode_line E line =
    (if line = [] then Ignored
     else if \<not> startswith line ''data: '' then Ignored
     else
       (let data_str = drop 6 line
        in if data_str = ''[DONE]'' then Done
           else
             (case json_loads E data_str of
                None \<Rightarrow> Ignored
              | Some data_obj \<Rightarrow>
                  (case extract_content data_obj of
                     Inl e \<Rightarrow> Raises e
                   | Inr None \<Rightarrow> Ignored
                   | Inr (Some content) \<Rightarrow>
                       (case content of JStr c \<Rightarrow> Delta c | _ \<Rightarrow> Raises TypeError)))))"

text \<open>
  The loop over \<^verbatim>\<open>response.iter_lines\<close>: each piece of text is appended to
  \<open>full_text\<close> and sent to the side channel at once; \<open>[DONE]\<close> leaves the loop; an
  exception (of a line, or of the write) ends it. When the lines are exhausted the body
  either ends or breaks.
\<close>

fun relay_lines ::
    "env \<Rightarrow> socket option \<Rightarrow> bool \<Rightarrow> string list \<Rightarrow> string \<Rightarrow> event list \<Rightarrow> (exn + string) \<times> event list" where
  "relay_lines E sock broken [] full_text w =
    (if broken then (Inl RequestException, w) else (Inr full_text, w))"
| "relay_lines E sock broken (line # rest) full_text w =
    (case decode_line E line of
       Ignored \<Rightarrow> relay_lines E sock broken rest full_text w
     | Done \<Rightarrow> (Inr full_text, w)
     | Raises e \<Rightarrow> (Inl e, w)
     | Delta content \<Rightarrow>
         (case send E sock (POutput content) w of
            (Inl e, w') \<Rightarrow> (Inl e, w')
          | (Inr u, w') \<Rightarrow> relay_lines E sock broken rest (full_text @ content) w'))"

subsection \<open>A chat turn (lines 168--245)\<close>

text \<open>\<^verbatim>\<open>raise_for_status\<close> raises for the status codes 400 to 599 only.\<close>

definition raise_for_status :: "nat \<Rightarrow> bool" where
  "raise_for_status status = (400 \<le> status \<and> status < 600)"

definition message :: "string \<Rightarrow> string \<Rightarrow> json" where
  "message role content = JObj [(''role'', JStr role), (''content'', JStr content)]"

text \<open>
  The body of the \<^verbatim>\<open>try\<close> (lines 188--219): the request, the loop, and only after
  the loop the two lines that put the answer into the history. It returns the text and the
  updated state, or the exception that ended it.
\<close>

definition stream_request ::
    "env \<Rightarrow> socket option \<Rightarrow> json \<Rightarrow> json \<Rightarrow> json \<Rightarrow> event list \<Rightarrow> (exn + string \<times> json) \<times> event list" where
  "stream_request E sock data messages state_payload w =
    (case upstream E of
       PostFails \<Rightarrow> (Inl RequestException, w @ [Posted data])
     | Response status lines broken \<Rightarrow>
         if raise_for_status status then (Inl RequestException, w @ [Posted data])
         else
           (case relay_lines E sock broken lines [] (w @ [Posted data]) of
              (Inl e, w') \<Rightarrow> (Inl e, w')
            | (Inr full_text, w') \<Rightarrow>
                (case py_append messages (message ''assistant'' full_text) of
                   Inl e \<Rightarrow> (Inl e, w')
                 | Inr messages' \<Rightarrow>
                     (case py_setitem state_payload ''history'' messages' of
                        Inl e \<Rightarrow> (Inl e, w')
                      | Inr state_payload' \<Rightarrow> (Inr (full_text, state_payload'), w')))))"

text \<open>
  Lines 168--186 run before the \<^verbatim>\<open>try\<close>: the copy of the history, the socket and
  the state snapshot; an exception there leaves \<^verbatim>\<open>chat\<close> at once. (The headers of
  lines 174--176 are built from \<^verbatim>\<open>args.get\<close> and string formatting, which do not
  raise; they only travel with the request, whose outcome is the environment's.) The two handlers
  turn an exception of the body into the text of the turn and push that text to the side
  channel; a write failing there leaves the handler as a new exception. The
  \<^verbatim>\<open>finally\<close> closes the socket in all three cases.
\<close>

definition chat_turn :: "env \<Rightarrow> dict \<Rightarrow> json \<Rightarrow> string \<Rightarrow> (exn + result) \<times> event list" where
  "chat_turn E args state_payload user_inp =
    (case py_getitem state_payload ''history'' of
       Inl e \<Rightarrow> (Inl e, [])
     | Inr history \<Rightarrow>
    (case py_copy history of
       Inl e \<Rightarrow> (Inl e, [])
     | Inr copied \<Rightarrow>
    (case py_append copied (message ''user'' user_inp) of
       Inl e \<Rightarrow> (Inl e, [])
     | Inr messages \<Rightarrow>
    (case py_getitem state_payload ''model'' of
       Inl e \<Rightarrow> (Inl e, [])
     | Inr model \<Rightarrow>
    (let data = JObj [(''model'', model), (''messages'', messages), (''stream'', JBool True)]
     in case open_socket E args of
       (Inl e, w) \<Rightarrow> (Inl e, w)
     | (Inr sock, w) \<Rightarrow>
    (case send E sock (PState state_payload) w of
       (Inl e, w1) \<Rightarrow> (Inl e, w1)
     | (Inr u, w1) \<Rightarrow>
    (case stream_request E sock data messages state_payload w1 of
       (Inr (full_text, state_payload'), w2) \<Rightarrow>
         (Inr \<lparr>res_output = full_text, res_streaming = STREAM_ENABLED, res_state = state_payload'\<rparr>,
          close_socket sock w2)
     | (Inl e, w2) \<Rightarrow>
         (let full_text =
                (if e = RequestException then ''API request failed: '' @ exn_str E e
                 else ''An error occurred: '' @ exn_str E e)
          in case stream_text E sock full_text w2 of
               (Inl e', w3) \<Rightarrow> (Inl e', close_socket sock w3)
             | (Inr u', w3) \<Rightarrow>
                 (Inr \<lparr>res_output = full_text, res_streaming = STREAM_ENABLED, res_state = state_payload\<rparr>,
                  close_socket sock w3)))))))))"

subsection \<open>The entry point (lines 87--245)\<close>

definition chat :: "env \<Rightarrow> dict \<Rightarrow> (exn + result) \<times> event list" where
  "chat E args =
    (case init_state E args of
       Inl e \<Rightarrow> (Inl e, [])
     | Inr state_payload \<Rightarrow>
         (let user_inp = user_input E args
          in if user_inp = [] then
               (Inr \<lparr>res_output = usage, res_streaming = True, res_state = state_payload\<rparr>, [])
             else if startswith user_inp ''@'' then command_turn E args state_payload user_inp
             else chat_turn E args state_payload user_inp))"

section \<open>Properties of a turn\<close>

subsection \<open>Notions the properties are stated with\<close>

text \<open>
  The side channel is quiet when \<^verbatim>\<open>_open_socket\<close> does not raise and, if it
  returns a socket, every write on it succeeds.
\<close>

definition side_channel_ok :: "env \<Rightarrow> dict \<Rightarrow> bool" where
  "side_channel_ok E args =
    (case fst (open_socket E args) of
       Inl e \<Rightarrow> False
     | Inr None \<Rightarrow> True
     | Inr (Some s) \<Rightarrow> (\<forall>n. send_ok E n))"


text \<open>The events of writing the payloads \<open>ps\<close> one after the other on \<open>sock\<close>.\<close>

definition delivered :: "socket option \<Rightarrow> payload list \<Rightarrow> event list" where
  "delivered sock ps = (case sock of None \<Rightarrow> [] | Some s \<Rightarrow> map Sent ps)"


text \<open>
  A turn reaches the request to the provider when the state normalises to a dictionary
  whose history is a list, and the text of the user is neither empty nor a command.
\<close>

definition chat_path :: "env \<Rightarrow> dict \<Rightarrow> dict \<Rightarrow> json list \<Rightarrow> string \<Rightarrow> bool" where
  "chat_path E args d history inp \<longleftrightarrow>
    init_state E args = Inr (JObj d) \<and> map_of d ''history'' = Some (JArr history) \<and>
    user_input E args = inp \<and> inp \<noteq> [] \<and> \<not> startswith inp ''@''"

subsection \<open>Concrete environments and inputs\<close>

text \<open>A decoder that knows the few payloads used below, as \<^verbatim>\<open>json.loads\<close> decodes them.\<close>

definition content_frame :: "string \<Rightarrow> json" where
  "content_frame c = JObj [(''choices'', JArr [JObj [(''delta'', JObj [(''content'', JStr c)])]])]"

definition sample_loads :: "string \<Rightarrow> json option" where
  \<open>sample_loads =
    map_of
      [(''{"choices":[{"delta":{"content":"Hel"}}]}'', content_frame ''Hel''),
       (''{"choices":[{"delta":{"content":"lo"}}]}'', content_frame ''lo''),
       (''{"choices":[{"delta":{"role":"assistant"}}]}'',
          JObj [(''choices'', JArr [JObj [(''delta'', JObj [(''role'', JStr ''assistant'')])]])]),
       (''null'', JNull)]\<close>

definition sample_body :: "string list" where
  \<open>sample_body =
    [''data: {"choices":[{"delta":{"content":"Hel"}}]}'',
     [],
     '': OPENROUTER PROCESSING'',
     ''data: {"choices":[{"delta":{"cont'',
     ''data: {"choices":[{"delta":{"content":"lo"}}]}'',
     ''data: [DONE]'']\<close>


definition sample_env :: env where
  "sample_env =
    \<lparr>json_loads = sample_loads,
     py_repr = (\<lambda>v. ''<repr>''),
     exn_str = (\<lambda>e. ''<message>''),
     connect_ok = (\<lambda>host port. True),
     send_ok = (\<lambda>n. True),
     upstream = Response 200 sample_body False\<rparr>"

definition with_side_channel :: "dict \<Rightarrow> dict" where
  "with_side_channel args = (''STREAM_HOST'', JStr ''localhost'') # (''STREAM_PORT'', JStr ''9000'') # args"





definition deaf_env :: env where
  "deaf_env = sample_env\<lparr>send_ok := (\<lambda>n. False)\<rparr>"

definition hangup_env :: env where
  "hangup_env = sample_env\<lparr>send_ok := (\<lambda>n. n = 0), upstream := PostFails\<rparr>"


subsection \<open>Writes that succeed\<close>





lemma ensure_field_cases:
  "ensure_field v k x = Inr st \<Longrightarrow>
   (py_contains k v = Inr True \<and> st = v) \<or>
   (\<exists>d. v = JObj d \<and> map_of d k = None \<and> st = JObj (AList.update k x d))"
  by (auto simp: ensure_field_def py_contains_def py_setitem_def split: sum.splits json.splits if_splits)

lemma ensure_field_has:
  "ensure_field v k x = Inr st \<Longrightarrow> py_contains k st = Inr True"
  by (drule ensure_field_cases) (auto simp: py_contains_def update_conv')

lemma ensure_field_keeps:
  "ensure_field v k x = Inr st \<Longrightarrow> py_contains k' v = Inr True \<Longrightarrow> py_contains k' st = Inr True"
  by (drule ensure_field_cases) (auto simp: py_contains_def update_conv')

lemma init_state_contains:
  assumes "init_state E args = Inr st"
  shows "py_contains ''model'' st = Inr True \<and> py_contains ''history'' st = Inr True"
proof -
  from assms obtain st1 where 1: "ensure_field (decode_state E args) ''model'' (JStr DEFAULT_MODEL) = Inr st1"
    and 2: "ensure_field st1 ''history'' (JArr []) = Inr st"
    by (auto simp: init_state_def split: sum.splits)
  from ensure_field_keeps[OF 2 ensure_field_has[OF 1]] ensure_field_has[OF 2] show ?thesis
    by simp
qed

lemma init_state_fields:
  assumes "init_state E args = Inr (JObj d)"
  shows "map_of d ''model'' \<noteq> None \<and> map_of d ''history'' \<noteq> None"
  using init_state_contains[OF assms] by (simp add: py_contains_def)


subsection \<open>Empty input\<close>



subsection \<open>A turn that reaches the provider and completes\<close>


lemma is_write_simps [simp]:
  "is_write (Sent p)" "is_write (SendFailed p)" "\<not> is_write (Connected host port)"
  "\<not> is_write (ConnectFailed host port)" "\<not> is_write Closed" "\<not> is_write (Posted data)"
  by (simp_all add: is_write_def)

lemma open_socket_no_write: "open_socket E args = (r, w0) \<Longrightarrow> filter is_write w0 = []"
  by (auto simp: open_socket_def Let_def split: json.splits sum.splits if_splits)






text \<open>The definitions that evaluate a turn on a concrete input.\<close>

lemmas eval_defs = init_state_def decode_state_def dict_get_def ensure_field_def py_contains_def py_setitem_def
    user_input_def py_str_def strip_def is_space_def startswith_def py_getitem_def py_copy_def py_append_def
    open_socket_def py_int_def parse_int_def is_digit_def raise_for_status_def decode_line_def
    extract_content_def py_len_def py_index0_def py_get_def message_def STREAM_ENABLED_def DEFAULT_MODEL_def
    chat_path_def side_channel_ok_def sample_env_def sample_loads_def sample_body_def content_frame_def
    with_side_channel_def Let_def





subsection \<open>A request that fails\<close>





subsection \<open>The side channel does not change the result, unless it fails\<close>





lemma no_socket [simp]:
  "send E None p w = (Inr (), w)" "stream_text E None text w = (Inr (), w)"
  "delivered None ps = []" "close_socket None w = w"
  by (simp_all add: send_def stream_text_def delivered_def close_socket_def)













subsection \<open>Selecting a model\<close>




lemma filter_head: "filter P xs = y # ys \<Longrightarrow> y \<in> set xs \<and> P y"
proof -
  assume eq: "filter P xs = y # ys"
  have "y \<in> set (filter P xs)"
    by (simp add: eq)
  then show ?thesis by simp
qed

lemma push_and_return_result:
  "push_and_return E sock st out w = (Inr r, tr) \<Longrightarrow>
   r = \<lparr>res_output = out, res_streaming = True, res_state = st\<rparr>"
  by (auto simp: push_and_return_def STREAM_ENABLED_def split: sum.splits prod.splits)





subsection \<open>What a turn can do to the state\<close>

lemma stream_request_result:
  "stream_request E sock data (JArr ms) (JObj d) w = (Inr (full, st'), w2) \<Longrightarrow>
   st' = JObj (AList.update ''history'' (JArr (ms @ [message ''assistant'' full])) d)"
  by (auto simp: stream_request_def py_append_def py_setitem_def
      split: upstream_reply.splits if_splits prod.splits sum.splits)

lemma chat_turn_returns_state:
  assumes ret: "chat_turn E args st inp = (Inr r, tr)"
  shows "res_state r = st \<or>
     (\<exists>d h msgs. st = JObj d \<and> map_of d ''history'' = Some (JArr h) \<and>
        res_state r = JObj (AList.update ''history'' (JArr (h @ msgs)) d))"
proof -
  from ret obtain history where hist: "py_getitem st ''history'' = Inr history"
    by (cases "py_getitem st ''history''") (simp_all add: chat_turn_def)
  then obtain d where d: "st = JObj d" "map_of d ''history'' = Some history"
    by (cases st) (auto simp: py_getitem_def split: option.splits)
  from ret hist obtain copied where copied: "py_copy history = Inr copied"
    by (cases "py_copy history") (simp_all add: chat_turn_def)
  from ret hist copied obtain messages where
    messages: "py_append copied (message ''user'' inp) = Inr messages"
    by (cases "py_append copied (message ''user'' inp)") (simp_all add: chat_turn_def)
  from copied messages obtain h where h: "history = JArr h" "messages = JArr (h @ [message ''user'' inp])"
    by (cases history; cases copied) (auto simp: py_copy_def py_append_def)
  from ret hist copied messages obtain model where model: "py_getitem st ''model'' = Inr model"
    by (cases "py_getitem st ''model''") (simp_all add: chat_turn_def)
  define data where "data = JObj [(''model'', model), (''messages'', messages), (''stream'', JBool True)]"
  obtain res w where sock: "open_socket E args = (res, w)"
    by (cases "open_socket E args")
  from ret hist copied messages model sock obtain sock' where res: "res = Inr sock'"
    by (cases res) (simp_all add: chat_turn_def)
  obtain sres w1 where snap: "send E sock' (PState st) w = (sres, w1)"
    by (cases "send E sock' (PState st) w")
  from ret hist copied messages model sock res snap have sres: "sres = Inr ()"
    by (cases sres) (simp_all add: chat_turn_def)
  obtain body w2 where req: "stream_request E sock' data messages st w1 = (body, w2)"
    by (cases "stream_request E sock' data messages st w1")
  have run: "(case body of
       Inr (full_text, state_payload') \<Rightarrow>
         (Inr \<lparr>res_output = full_text, res_streaming = STREAM_ENABLED, res_state = state_payload'\<rparr>,
          close_socket sock' w2)
     | Inl e \<Rightarrow>
         (let full_text =
                (if e = RequestException then ''API request failed: '' @ exn_str E e
                 else ''An error occurred: '' @ exn_str E e)
          in case stream_text E sock' full_text w2 of
               (Inl e', w3) \<Rightarrow> (Inl e', close_socket sock' w3)
             | (Inr u', w3) \<Rightarrow>
                 (Inr \<lparr>res_output = full_text, res_streaming = STREAM_ENABLED, res_state = st\<rparr>,
                  close_socket sock' w3))) = (Inr r, tr)"
    using ret hist copied messages model sock res snap sres req
    by (cases body) (simp_all add: chat_turn_def data_def split: prod.splits)
  show ?thesis
  proof (cases body)
    case (Inr ok)
    obtain full st' where ok: "ok = (full, st')"
      by (cases ok)
    from run Inr ok have "res_state r = st'"
      by auto
    moreover from stream_request_result[OF req[unfolded Inr ok h(2) d(1)]]
    have "st' = JObj (AList.update ''history'' (JArr ((h @ [message ''user'' inp]) @ [message ''assistant'' full])) d)" .
    ultimately show ?thesis
      using d h(1) by auto
  next
    case (Inl e)
    with run have "res_state r = st"
      by (auto simp: Let_def split: prod.splits sum.splits)
    then show ?thesis by simp
  qed
qed

lemma command_turn_returns_state:
  assumes ret: "command_turn E args st inp = (Inr r, tr)"
  shows "res_state r = st \<or>
     (\<exists>d m. st = JObj d \<and> m \<in> set STATIC_MODELS \<and>
        res_state r = JObj (AList.update ''model'' (JStr m) d))"
proof -
  obtain res w where sock: "open_socket E args = (res, w)"
    by (cases "open_socket E args")
  from ret sock obtain sock' where res: "res = Inr sock'"
    by (cases res) (simp_all add: command_turn_def)
  let ?matched = "filter (\<lambda>model. lower model = lower (drop 1 inp)) STATIC_MODELS"
  consider (list) "inp = ''@''" | (none) "inp \<noteq> ''@''" "?matched = []"
    | (many) "inp \<noteq> ''@''" "length ?matched > 1"
    | (one) first where "inp \<noteq> ''@''" "?matched = [first]"
    by (cases ?matched rule: list.exhaust; cases "tl ?matched") auto
  then show ?thesis
  proof cases
    case list
    with ret sock res obtain out where "push_and_return E sock' st out w = (Inr r, tr)"
      by (cases "py_getitem st ''model''") (simp_all add: command_turn_def)
    from push_and_return_result[OF this] show ?thesis by simp
  next
    case none
    with ret sock res obtain out where "push_and_return E sock' st out w = (Inr r, tr)"
      by (cases "py_getitem st ''model''") (simp_all add: command_turn_def Let_def)
    from push_and_return_result[OF this] show ?thesis by simp
  next
    case many
    then obtain first others where "?matched = first # others"
      by (cases ?matched) auto
    with many ret sock res obtain out where "push_and_return E sock' st out w = (Inr r, tr)"
      by (simp add: command_turn_def Let_def)
    from push_and_return_result[OF this] show ?thesis by simp
  next
    case one
    from filter_head[OF one(2)] have mem: "first \<in> set STATIC_MODELS"
      by simp
    from one ret sock res obtain st' out where set: "py_setitem st ''model'' (JStr first) = Inr st'"
      and push: "push_and_return E sock' st' out w = (Inr r, tr)"
      by (cases "py_setitem st ''model'' (JStr first)") (simp_all add: command_turn_def Let_def)
    from set obtain d where "st = JObj d" "st' = JObj (AList.update ''model'' (JStr first) d)"
      by (cases st) (auto simp: py_setitem_def)
    with push_and_return_result[OF push] mem show ?thesis by auto
  qed
qed

lemma chat_returns_state:
  assumes ret: "chat E args = (Inr r, tr)" and st: "init_state E args = Inr st"
  shows "res_state r = st \<or>
     (\<exists>d m. st = JObj d \<and> m \<in> set STATIC_MODELS \<and>
        res_state r = JObj (AList.update ''model'' (JStr m) d)) \<or>
     (\<exists>d h msgs. st = JObj d \<and> map_of d ''history'' = Some (JArr h) \<and>
        res_state r = JObj (AList.update ''history'' (JArr (h @ msgs)) d))"
proof -
  consider (empty) "user_input E args = []"
    | (command) "user_input E args \<noteq> []" "startswith (user_input E args) ''@''"
    | (chat) "user_input E args \<noteq> []" "\<not> startswith (user_input E args) ''@''"
    by blast
  then show ?thesis
  proof cases
    case empty
    with ret st show ?thesis by (auto simp: chat_def)
  next
    case command
    with ret st have "command_turn E args st (user_input E args) = (Inr r, tr)"
      by (simp add: chat_def Let_def)
    from command_turn_returns_state[OF this] show ?thesis by blast
  next
    case chat
    with ret st have "chat_turn E args st (user_input E args) = (Inr r, tr)"
      by (simp add: chat_def Let_def)
    from chat_turn_returns_state[OF this] show ?thesis by blast
  qed
qed

lemma chat_returns_init:
  "chat E args = (Inr r, tr) \<Longrightarrow> \<exists>st. init_state E args = Inr st"
  by (cases "init_state E args") (simp_all add: chat_def)

lemma history_extends:
  assumes ret: "chat E args = (Inr r, tr)" and st: "init_state E args = Inr st"
  shows "py_getitem (res_state r) ''history'' = py_getitem st ''history'' \<or>
     (\<exists>old new. py_getitem st ''history'' = Inr (JArr old) \<and>
        py_getitem (res_state r) ''history'' = Inr (JArr (old @ new)))"
  using chat_returns_state[OF ret st]
  by (auto simp: py_getitem_def update_conv')

lemma returned_state_fields:
  assumes ret: "chat E args = (Inr r, tr)" and d: "res_state r = JObj d"
  shows "map_of d ''model'' \<noteq> None \<and> map_of d ''history'' \<noteq> None"
proof -
  from chat_returns_init[OF ret] obtain st where st: "init_state E args = Inr st"
    by blast
  from chat_returns_state[OF ret st] show ?thesis
  proof (elim disjE exE conjE)
    assume "res_state r = st"
    with d st init_state_fields[of E args d] show ?thesis
      by simp
  next
    fix d0 m
    assume "st = JObj d0" "res_state r = JObj (AList.update ''model'' (JStr m) d0)"
    with d st init_state_fields[of E args d0] show ?thesis
      by (auto simp: update_conv')
  next
    fix d0 h msgs
    assume "st = JObj d0" "res_state r = JObj (AList.update ''history'' (JArr (h @ msgs)) d0)"
    with d st init_state_fields[of E args d0] show ?thesis
      by (auto simp: update_conv')
  qed
qed

lemma init_state_of_complete:
  assumes "dict_get args ''state'' (JObj []) = JObj d"
    and "map_of d ''model'' \<noteq> None" and "map_of d ''history'' \<noteq> None"
  shows "init_state E args = Inr (JObj d)"
  using assms by (simp add: init_state_def decode_state_def ensure_field_def py_contains_def)

text \<open>
  Claim C8. Whenever \<^verbatim>\<open>chat\<close> returns, the history of the returned state is the
  history of the normalised input state, unchanged or with messages appended at its end:
  if the input history is a list, it is a prefix of the returned one. Hence a next turn
  that receives the returned state keeps every entry of that history, again as a prefix.
\<close>

theorem history_append_only:
  assumes ret: "chat E args = (Inr r, tr)" and st: "init_state E args = Inr st"
  shows "(py_getitem (res_state r) ''history'' = py_getitem st ''history'' \<or>
          (\<exists>old new. py_getitem st ''history'' = Inr (JArr old) \<and>
             py_getitem (res_state r) ''history'' = Inr (JArr (old @ new)))) \<and>
         (\<forall>old. py_getitem st ''history'' = Inr (JArr old) \<longrightarrow>
            (\<exists>cur. py_getitem (res_state r) ''history'' = Inr (JArr cur) \<and> prefix old cur)) \<and>
         (\<forall>E' args' r' tr' old.
            dict_get args' ''state'' (JObj []) = res_state r \<and> chat E' args' = (Inr r', tr') \<and>
            py_getitem (res_state r) ''history'' = Inr (JArr old) \<longrightarrow>
            (\<exists>cur. py_getitem (res_state r') ''history'' = Inr (JArr cur) \<and> prefix old cur))"
proof (intro conjI allI impI)
  show one: "py_getitem (res_state r) ''history'' = py_getitem st ''history'' \<or>
          (\<exists>old new. py_getitem st ''history'' = Inr (JArr old) \<and>
             py_getitem (res_state r) ''history'' = Inr (JArr (old @ new)))"
    using history_extends[OF ret st] .
  fix old
  assume "py_getitem st ''history'' = Inr (JArr old)"
  with one show "\<exists>cur. py_getitem (res_state r) ''history'' = Inr (JArr cur) \<and> prefix old cur"
    by auto
next
  fix E' args' r' tr' old
  assume next_turn: "dict_get args' ''state'' (JObj []) = res_state r \<and> chat E' args' = (Inr r', tr') \<and>
            py_getitem (res_state r) ''history'' = Inr (JArr old)"
  then obtain d where d: "res_state r = JObj d"
    by (cases "res_state r") (simp_all add: py_getitem_def)
  from returned_state_fields[OF ret d] next_turn d
  have st': "init_state E' args' = Inr (res_state r)"
    by (simp add: init_state_of_complete)
  from next_turn have ret': "chat E' args' = (Inr r', tr')"
    by simp
  from history_extends[OF ret' st'] next_turn
  show "\<exists>cur. py_getitem (res_state r') ''history'' = Inr (JArr cur) \<and> prefix old cur"
    by auto
qed

theorem history_append_only_witness:
  "py_getitem (res_state (projr (fst (chat sample_env
      [(''input'', JStr ''hi''),
       (''state'', JObj [(''history'', JArr [message ''user'' ''a'', message ''assistant'' ''b''])])]))))
     ''history'' =
   Inr (JArr ([message ''user'' ''a'', message ''assistant'' ''b''] @
              [message ''user'' ''hi'', message ''assistant'' ''Hello'']))"
proof -
  let ?args = "[(''input'', JStr ''hi''),
       (''state'', JObj [(''history'', JArr [message ''user'' ''a'', message ''assistant'' ''b''])])]"
  let ?st = "JObj [(''history'', JArr [message ''user'' ''a'', message ''assistant'' ''b'']),
                   (''model'', JStr DEFAULT_MODEL)]"
  have "fst (chat sample_env ?args) =
      Inr \<lparr>res_output = ''Hello'', res_streaming = True,
           res_state = JObj [(''history'', JArr [message ''user'' ''a'', message ''assistant'' ''b'',
                                                 message ''user'' ''hi'', message ''assistant'' ''Hello'']),
                             (''model'', JStr DEFAULT_MODEL)]\<rparr>"
    by code_simp
  then obtain tr where run: "chat sample_env ?args =
     (Inr \<lparr>res_output = ''Hello'', res_streaming = True,
           res_state = JObj [(''history'', JArr [message ''user'' ''a'', message ''assistant'' ''b'',
                                                 message ''user'' ''hi'', message ''assistant'' ''Hello'']),
                             (''model'', JStr DEFAULT_MODEL)]\<rparr>, tr)"
    by (cases "chat sample_env ?args") simp
  have st: "init_state sample_env ?args = Inr ?st"
    by (simp add: eval_defs)
  from conjunct1[OF history_append_only[OF run st]] run show ?thesis
    by (simp add: py_getitem_def)
qed

subsection \<open>The model of the returned state\<close>






subsection \<open>A state that is absent or invalid\<close>

text \<open>
  An absent state, a value that is neither a string nor a dictionary, and a string that
  \<^verbatim>\<open>json.loads\<close> rejects all give the empty state with its defaults.
\<close>

lemma invalid_state_defaults:
  assumes "map_of args ''state'' = None \<or>
           (\<exists>v. map_of args ''state'' = Some v \<and> (\<forall>s. v \<noteq> JStr s) \<and> (\<forall>d. v \<noteq> JObj d)) \<or>
           (\<exists>s. map_of args ''state'' = Some (JStr s) \<and> json_loads E s = None)"
  shows "init_state E args = Inr (JObj [(''model'', JStr DEFAULT_MODEL), (''history'', JArr [])])"
proof -
  from assms have "decode_state E args = JObj []"
    by (auto simp: decode_state_def dict_get_def split: json.splits)
  then show ?thesis
    by (simp add: init_state_def ensure_field_def py_contains_def py_setitem_def)
qed

text \<open>
  Claim C4 does not hold for a string that decodes to something else than an object. The
  string \<open>null\<close> decodes to \<open>None\<close>, which line 98 would have replaced by the
  empty dictionary had it come undecoded; coming from \<^verbatim>\<open>json.loads\<close> it is kept,
  and \<^verbatim>\<open>"model" not in None\<close> raises a \<open>TypeError\<close> at line 101. The same state
  given as the value \<open>null\<close> itself is handled.
\<close>

theorem undecoded_state_raises:
  "chat sample_env [(''input'', JStr ''hi''), (''state'', JStr ''null'')] = (Inl TypeError, []) \<and>
   chat sample_env [(''input'', JStr ''hi''), (''state'', JNull)] =
     (Inr \<lparr>res_output = ''Hello'', res_streaming = True,
           res_state = JObj [(''model'', JStr DEFAULT_MODEL),
                             (''history'', JArr [message ''user'' ''hi'', message ''assistant'' ''Hello''])]\<rparr>,
      [Posted (JObj [(''model'', JStr DEFAULT_MODEL), (''messages'', JArr [message ''user'' ''hi'']),
                     (''stream'', JBool True)])])"
  by code_simp

subsection \<open>Closing the socket\<close>

text \<open>
  When \<^verbatim>\<open>chat\<close> returns from the command path with a socket open, the last event is
  the close; and on the chat path, once the request has been issued, the
  \<^verbatim>\<open>finally\<close> closes the socket whether the turn returns or raises.
\<close>

lemma push_and_return_closes:
  "push_and_return E (Some s) st out w = (Inr r, tr) \<Longrightarrow> last tr = Closed"
  by (auto simp: push_and_return_def close_socket_def split: sum.splits prod.splits)

lemma command_turn_closes:
  assumes ret: "command_turn E args st inp = (Inr r, tr)"
    and sock: "open_socket E args = (Inr (Some s), w0)"
  shows "last tr = Closed"
  using ret sock
  by (auto simp: command_turn_def Let_def split: sum.splits list.splits if_splits
      dest: push_and_return_closes)

lemma chat_turn_closes:
  assumes sock: "open_socket E args = (Inr (Some s), w0)" and snap: "send_ok E 0"
    and reached: "\<exists>ev\<in>set (snd (chat_turn E args st inp)). \<exists>data. ev = Posted data"
  shows "last (snd (chat_turn E args st inp)) = Closed"
  using sock open_socket_no_write[OF sock] snap reached
  by (auto simp: chat_turn_def Let_def send_def close_socket_def
      split: sum.splits prod.splits)

text \<open>
  Claim C7 does not hold on the paths that raise outside of the \<^verbatim>\<open>try\<close>. On the
  chat path the state snapshot of line 186 is written before the \<^verbatim>\<open>try\<close>: when
  that write fails the socket stays open. On the command path no \<^verbatim>\<open>try\<close> exists at
  all: when a write of the answer fails, the exception leaves \<^verbatim>\<open>chat\<close> before the
  call that closes the socket. In both runs no \<open>Closed\<close> event follows the
  connection.
\<close>

theorem socket_left_open:
  "chat deaf_env (with_side_channel [(''input'', JStr ''hi'')]) =
     (Inl OSError,
      [Connected ''localhost'' 9000,
       SendFailed (PState (JObj [(''model'', JStr DEFAULT_MODEL), (''history'', JArr [])]))]) \<and>
   chat hangup_env (with_side_channel [(''input'', JStr ''@zzz'')]) =
     (Inl OSError,
      [Connected ''localhost'' 9000,
       Sent (PState (JObj [(''model'', JStr DEFAULT_MODEL), (''history'', JArr [])])),
       SendFailed (POutput ''No model f'')])"
  by code_simp

end
